theory Spec2Isabelle
  imports Main "HOL-Library.Word"
begin

section \<open>mkcheck: syscall dispatch (syscall.cpp)\<close>

text \<open>
  The development embeds \<^verbatim>\<open>src/mkcheck/syscall.cpp\<close>: the handlers \<^verbatim>\<open>sys_*\<close>, the
  dispatch table \<^verbatim>\<open>kHandlers\<close> and the entry point \<^verbatim>\<open>Handle\<close>. The C++ functions
  return \<^verbatim>\<open>void\<close> and work on a \<^verbatim>\<open>Trace *\<close>; the model passes the trace explicitly and
  returns the trace the call leaves behind, or the exception it throws.
\<close>

subsection \<open>Data model\<close>

type_synonym ProcessId = int
type_synonym FileIdentity = string

datatype AccessKind = Read | Write | RenameFrom | RenameTo | Delete

record DependencyEdge =
  edge_pid :: ProcessId
  edge_file :: FileIdentity
  edge_kind :: AccessKind
  edge_seq :: nat

record Descriptor =
  fd_file :: FileIdentity
  fd_flags :: nat
  fd_cloexec :: bool

record ProcessState =
  ps_pid :: ProcessId
  ps_cwd :: FileIdentity
  ps_fds :: "int \<rightharpoonup> Descriptor"
  ps_parent :: "ProcessId option"

text \<open>
  Modelled from the spec: \<^verbatim>\<open>class Trace\<close> is declared in \<^verbatim>\<open>trace.h\<close>, which is not part of
  the sources at hand. The spec's data model gives the state the Dependency Graph Builder
  owns: the Process State Table (one \<open>ProcessState\<close> per registered pid) and the
  append-only list of \<open>DependencyEdge\<close>s.
\<close>

record Trace =
  procs :: "ProcessId \<rightharpoonup> ProcessState"
  edges :: "DependencyEdge list"

text \<open>
  Modelled from the spec: \<^verbatim>\<open>struct Args\<close> is declared in \<^verbatim>\<open>syscall.h\<close>, which is not part
  of the sources at hand. \<^verbatim>\<open>syscall.cpp\<close> reads the fields \<^verbatim>\<open>PID\<close> and \<^verbatim>\<open>Return\<close>; the spec
  describes an event as the issuing pid, the argument registers and a signed return value
  (negative on failure). \<open>Arg\<close> holds the argument registers.
\<close>

record Args =
  PID :: int
  Return :: int
  Arg :: "int list"

text \<open>
  What a call leaves behind: it returns (with the trace as it now is), it throws, or it
  performs a read outside the bounds of an array, which C++ leaves undefined.
\<close>

datatype exn = runtime_error string | UnregisteredProcess ProcessId

datatype 'a outcome = Returned 'a | Threw exn | Undefined_behaviour

text \<open>
  Modelled from the spec: \<^verbatim>\<open>Trace::SpawnTrace(parent, pid)\<close> is defined outside the sources
  at hand. The spec's ProcessSpawn row: register a new ProcessState as child, inheriting a
  snapshot of the parent's descriptor table and cwd at spawn time, with no edge emitted;
  looking up an unregistered pid is fatal (UnregisteredProcess).
\<close>

definition SpawnTrace :: "Trace \<Rightarrow> ProcessId \<Rightarrow> ProcessId \<Rightarrow> Trace outcome" where
  "SpawnTrace trace parent pid =
     (case procs trace parent of
        None \<Rightarrow> Threw (UnregisteredProcess parent)
      | Some ps \<Rightarrow>
          Returned (trace\<lparr>procs := (procs trace)(pid \<mapsto>
            \<lparr>ps_pid = pid, ps_cwd = ps_cwd ps, ps_fds = ps_fds ps, ps_parent = Some parent\<rparr>)\<rparr>))"

subsection \<open>\<^verbatim>\<open>std::to_string\<close> on a 64-bit signed integer\<close>

definition digit_char :: "nat \<Rightarrow> char" where
  "digit_char d = ''0123456789'' ! d"

fun to_string_nat :: "nat \<Rightarrow> string" where
  "to_string_nat n =
     (if n < 10 then [digit_char n] else to_string_nat (n div 10) @ [digit_char (n mod 10)])"

declare to_string_nat.simps [simp del]

definition to_string :: "int \<Rightarrow> string" where
  "to_string i = (if i < 0 then CHR ''-'' # to_string_nat (nat (- i)) else to_string_nat (nat i))"

subsection \<open>The handlers\<close>

type_synonym HandlerFn = "Trace \<Rightarrow> Args \<Rightarrow> Trace outcome"

definition sys_read :: HandlerFn where
  "sys_read trace args = Returned trace"

definition sys_write :: HandlerFn where
  "sys_write trace args = Returned trace"

definition sys_open :: HandlerFn where
  "sys_open trace args = Returned trace"

definition sys_close :: HandlerFn where
  "sys_close trace args = Returned trace"

definition sys_stat :: HandlerFn where
  "sys_stat trace args = Returned trace"

definition sys_fstat :: HandlerFn where
  "sys_fstat trace args = Returned trace"

definition sys_lstat :: HandlerFn where
  "sys_lstat trace args = Returned trace"

definition sys_ioctl :: HandlerFn where
  "sys_ioctl trace args = Returned trace"

definition sys_pread64 :: HandlerFn where
  "sys_pread64 trace args = Returned trace"

definition sys_readv :: HandlerFn where
  "sys_readv trace args = Returned trace"

definition sys_access :: HandlerFn where
  "sys_access trace args = Returned trace"

definition sys_pipe :: HandlerFn where
  "sys_pipe trace args = Returned trace"

definition sys_dup :: HandlerFn where
  "sys_dup trace args = Returned trace"

definition sys_dup2 :: HandlerFn where
  "sys_dup2 trace args = Returned trace"

definition sys_clone :: HandlerFn where
  "sys_clone trace args =
     (if Return args > 0 then SpawnTrace trace (PID args) (Return args) else Returned trace)"

definition sys_vfork :: HandlerFn where
  "sys_vfork trace args =
     (if Return args > 0 then SpawnTrace trace (PID args) (Return args) else Returned trace)"

definition sys_fcntl :: HandlerFn where
  "sys_fcntl trace args = Returned trace"

definition sys_getdents :: HandlerFn where
  "sys_getdents trace args = Returned trace"

definition sys_chdir :: HandlerFn where
  "sys_chdir trace args = Returned trace"

definition sys_rename :: HandlerFn where
  "sys_rename trace args = Returned trace"

definition sys_unlink :: HandlerFn where
  "sys_unlink trace args = Returned trace"

definition sys_readlink :: HandlerFn where
  "sys_readlink trace args = Returned trace"

definition sys_chmod :: HandlerFn where
  "sys_chmod trace args = Returned trace"

definition sys_pipe2 :: HandlerFn where
  "sys_pipe2 trace args = Returned trace"

definition sys_ignore :: HandlerFn where
  "sys_ignore trace args = Returned trace"

subsection \<open>Syscall numbers\<close>

text \<open>
  The \<^verbatim>\<open>SYS_*\<close> constants come from the system header \<^verbatim>\<open><sys/syscall.h>\<close>. mkcheck traces
  Linux on x86-64; the values are those of that architecture's syscall table.
\<close>

definition SYS_read :: nat where "SYS_read = 0"
definition SYS_write :: nat where "SYS_write = 1"
definition SYS_open :: nat where "SYS_open = 2"
definition SYS_close :: nat where "SYS_close = 3"
definition SYS_stat :: nat where "SYS_stat = 4"
definition SYS_fstat :: nat where "SYS_fstat = 5"
definition SYS_lstat :: nat where "SYS_lstat = 6"
definition SYS_lseek :: nat where "SYS_lseek = 8"
definition SYS_mmap :: nat where "SYS_mmap = 9"
definition SYS_mprotect :: nat where "SYS_mprotect = 10"
definition SYS_munmap :: nat where "SYS_munmap = 11"
definition SYS_brk :: nat where "SYS_brk = 12"
definition SYS_rt_sigaction :: nat where "SYS_rt_sigaction = 13"
definition SYS_rt_sigprocmask :: nat where "SYS_rt_sigprocmask = 14"
definition SYS_rt_sigreturn :: nat where "SYS_rt_sigreturn = 15"
definition SYS_ioctl :: nat where "SYS_ioctl = 16"
definition SYS_pread64 :: nat where "SYS_pread64 = 17"
definition SYS_readv :: nat where "SYS_readv = 19"
definition SYS_access :: nat where "SYS_access = 21"
definition SYS_pipe :: nat where "SYS_pipe = 22"
definition SYS_dup :: nat where "SYS_dup = 32"
definition SYS_dup2 :: nat where "SYS_dup2 = 33"
definition SYS_getpid :: nat where "SYS_getpid = 39"
definition SYS_clone :: nat where "SYS_clone = 56"
definition SYS_vfork :: nat where "SYS_vfork = 58"
definition SYS_execve :: nat where "SYS_execve = 59"
definition SYS_wait4 :: nat where "SYS_wait4 = 61"
definition SYS_fcntl :: nat where "SYS_fcntl = 72"
definition SYS_getdents :: nat where "SYS_getdents = 78"
definition SYS_getcwd :: nat where "SYS_getcwd = 79"
definition SYS_chdir :: nat where "SYS_chdir = 80"
definition SYS_rename :: nat where "SYS_rename = 82"
definition SYS_unlink :: nat where "SYS_unlink = 87"
definition SYS_readlink :: nat where "SYS_readlink = 89"
definition SYS_chmod :: nat where "SYS_chmod = 90"
definition SYS_umask :: nat where "SYS_umask = 95"
definition SYS_sysinfo :: nat where "SYS_sysinfo = 99"
definition SYS_getrlimit :: nat where "SYS_getrlimit = 97"
definition SYS_getrusage :: nat where "SYS_getrusage = 98"
definition SYS_sigaltstack :: nat where "SYS_sigaltstack = 131"
definition SYS_arch_prctl :: nat where "SYS_arch_prctl = 158"
definition SYS_setrlimit :: nat where "SYS_setrlimit = 160"
definition SYS_futex :: nat where "SYS_futex = 202"
definition SYS_set_tid_address :: nat where "SYS_set_tid_address = 218"
definition SYS_exit_group :: nat where "SYS_exit_group = 231"
definition SYS_set_robust_list :: nat where "SYS_set_robust_list = 273"
definition SYS_pipe2 :: nat where "SYS_pipe2 = 293"

subsection \<open>The dispatch table\<close>

text \<open>
  \<^verbatim>\<open>kHandlers\<close> is an array of function pointers written with designated initialisers
  \<^verbatim>\<open>[index] = value\<close>. Such an array has one element more than its largest designated
  index; an element no designator names is a null pointer (\<open>None\<close>); where an index is
  named twice the later designator wins.
\<close>

definition designated_size :: "(nat \<times> 'a) list \<Rightarrow> nat" where
  "designated_size inits = fold (\<lambda>(i, v) n. max n (Suc i)) inits 0"

definition designated :: "(nat \<times> 'a) list \<Rightarrow> 'a option list" where
  "designated inits = map (map_of (rev inits)) [0..<designated_size inits]"

definition kHandlers_init :: "(nat \<times> HandlerFn) list" where
  "kHandlers_init =
    [(SYS_read, sys_read),
     (SYS_write, sys_write),
     (SYS_open, sys_open),
     (SYS_close, sys_close),
     (SYS_stat, sys_stat),
     (SYS_fstat, sys_fstat),
     (SYS_lstat, sys_lstat),
     (SYS_lseek, sys_ignore),
     (SYS_mmap, sys_ignore),
     (SYS_mprotect, sys_ignore),
     (SYS_munmap, sys_ignore),
     (SYS_brk, sys_ignore),
     (SYS_rt_sigaction, sys_ignore),
     (SYS_rt_sigprocmask, sys_ignore),
     (SYS_rt_sigreturn, sys_ignore),
     (SYS_ioctl, sys_ioctl),
     (SYS_pread64, sys_pread64),
     (SYS_readv, sys_readv),
     (SYS_access, sys_access),
     (SYS_pipe, sys_pipe),
     (SYS_dup, sys_dup),
     (SYS_dup2, sys_dup2),
     (SYS_getpid, sys_ignore),
     (SYS_clone, sys_clone),
     (SYS_vfork, sys_vfork),
     (SYS_execve, sys_ignore),
     (SYS_wait4, sys_ignore),
     (SYS_fcntl, sys_fcntl),
     (SYS_getdents, sys_getdents),
     (SYS_getcwd, sys_ignore),
     (SYS_chdir, sys_chdir),
     (SYS_rename, sys_rename),
     (SYS_unlink, sys_unlink),
     (SYS_readlink, sys_readlink),
     (SYS_chmod, sys_chmod),
     (SYS_umask, sys_ignore),
     (SYS_sysinfo, sys_ignore),
     (SYS_getrlimit, sys_ignore),
     (SYS_getrusage, sys_ignore),
     (SYS_sigaltstack, sys_ignore),
     (SYS_arch_prctl, sys_ignore),
     (SYS_setrlimit, sys_ignore),
     (SYS_futex, sys_ignore),
     (SYS_set_tid_address, sys_ignore),
     (SYS_exit_group, sys_ignore),
     (SYS_set_robust_list, sys_ignore),
     (SYS_pipe2, sys_pipe2)]"

definition kHandlers :: "HandlerFn option list" where
  "kHandlers = designated kHandlers_init"

subsection \<open>Handle\<close>

text \<open>
  \<^verbatim>\<open>sno\<close> is an \<^verbatim>\<open>int64_t\<close>. The first test is a signed comparison. In the second,
  \<^verbatim>\<open>sno > sizeof(kHandlers) / sizeof(kHandlers[0])\<close>, the right-hand side is a \<^verbatim>\<open>size_t\<close>,
  so \<^verbatim>\<open>sno\<close> is converted to unsigned (\<open>unat\<close>); \<^verbatim>\<open>||\<close> evaluates \<^verbatim>\<open>!kHandlers[sno]\<close>
  only when that comparison is false, and the read is inside the array only for an index
  below its length.
\<close>

definition Handle :: "Trace \<Rightarrow> 64 word \<Rightarrow> Args \<Rightarrow> Trace outcome" where
  "Handle trace sno args =
     (if sno <s 0 then Returned trace
      else if unat sno > length kHandlers then
        Threw (runtime_error (''Unhandled syscall: '' @ to_string (sint sno)))
      else if \<not> unat sno < length kHandlers then Undefined_behaviour
      else
        (case kHandlers ! unat sno of
           None \<Rightarrow> Threw (runtime_error (''Unhandled syscall: '' @ to_string (sint sno)))
         | Some handler \<Rightarrow> handler trace args))"

subsection \<open>Notions used to state the properties\<close>

text \<open>
  The entry the table holds for a syscall number: the handler registered for it, if any.
  A number outside the table (negative, or at or past its end) has no entry.
\<close>

definition handler_of :: "64 word \<Rightarrow> HandlerFn option" where
  "handler_of sno =
     (if sno <s 0 \<or> length kHandlers \<le> unat sno then None else kHandlers ! unat sno)"

text \<open>The descriptor a process has open under a number, if the process is registered.\<close>

definition descriptor_of :: "Trace \<Rightarrow> ProcessId \<Rightarrow> int \<Rightarrow> Descriptor option" where
  "descriptor_of trace pid fd =
     (case procs trace pid of None \<Rightarrow> None | Some ps \<Rightarrow> ps_fds ps fd)"

text \<open>Reading a decimal numeral back, to show that the error message determines the number.\<close>

definition digit_val :: "char \<Rightarrow> nat" where
  "digit_val c = of_char c - 48"

definition from_digits :: "string \<Rightarrow> nat" where
  "from_digits s = foldl (\<lambda>n c. 10 * n + digit_val c) 0 s"

subsection \<open>A concrete trace and concrete events\<close>

text \<open>
  Process 1 is registered with working directory \<^verbatim>\<open>/tmp\<close> and descriptor 3 open on
  \<^verbatim>\<open>/tmp/a.txt\<close>; no edge has been recorded yet.
\<close>

definition ex_descriptor :: Descriptor where
  "ex_descriptor = \<lparr>fd_file = ''/tmp/a.txt'', fd_flags = 0, fd_cloexec = False\<rparr>"

definition ex_proc :: ProcessState where
  "ex_proc = \<lparr>ps_pid = 1, ps_cwd = ''/tmp'', ps_fds = [3 \<mapsto> ex_descriptor], ps_parent = None\<rparr>"

definition ex_trace :: Trace where
  "ex_trace = \<lparr>procs = [1 \<mapsto> ex_proc], edges = []\<rparr>"

text \<open>\<^verbatim>\<open>read(3, buf, 4096)\<close> returning 10 bytes.\<close>

definition ex_read :: Args where
  "ex_read = \<lparr>PID = 1, Return = 10, Arg = [3, 140737488347136, 4096]\<rparr>"

text \<open>\<^verbatim>\<open>open("out.tmp", O_WRONLY|O_CREAT, 0644)\<close> returning descriptor 4.\<close>

definition ex_open :: Args where
  "ex_open = \<lparr>PID = 1, Return = 4, Arg = [140737488347136, 65, 420]\<rparr>"

text \<open>\<^verbatim>\<open>close(3)\<close> returning 0.\<close>

definition ex_close :: Args where
  "ex_close = \<lparr>PID = 1, Return = 0, Arg = [3]\<rparr>"

text \<open>\<^verbatim>\<open>rename("out.tmp", "out.txt")\<close> returning 0.\<close>

definition ex_rename :: Args where
  "ex_rename = \<lparr>PID = 1, Return = 0, Arg = [140737488347136, 140737488347144]\<rparr>"

text \<open>\<^verbatim>\<open>clone\<close> returning child pid 500 in the parent, and a \<^verbatim>\<open>clone\<close> that failed.\<close>

definition ex_clone :: Args where
  "ex_clone = \<lparr>PID = 1, Return = 500, Arg = [18874385, 0, 0, 0, 0]\<rparr>"

definition ex_clone_failed :: Args where
  "ex_clone_failed = \<lparr>PID = 1, Return = - 11, Arg = [18874385, 0, 0, 0, 0]\<rparr>"

text \<open>The example trace after process 1 has spawned process 500.\<close>

definition ex_trace_spawned :: Trace where
  "ex_trace_spawned =
     ex_trace\<lparr>procs := (procs ex_trace)(500 \<mapsto>
       \<lparr>ps_pid = 500, ps_cwd = ''/tmp'', ps_fds = [3 \<mapsto> ex_descriptor],
        ps_parent = Some 1\<rparr>)\<rparr>"

section \<open>Properties\<close>

subsection \<open>Basic facts\<close>

lemmas sys_defs =
  sys_read_def sys_write_def sys_open_def sys_close_def sys_stat_def sys_fstat_def
  sys_lstat_def sys_ioctl_def sys_pread64_def sys_readv_def sys_access_def sys_pipe_def
  sys_dup_def sys_dup2_def sys_clone_def sys_vfork_def sys_fcntl_def sys_getdents_def
  sys_chdir_def sys_rename_def sys_unlink_def sys_readlink_def sys_chmod_def sys_pipe2_def
  sys_ignore_def

lemmas SYS_defs =
  SYS_read_def SYS_write_def SYS_open_def SYS_close_def SYS_stat_def SYS_fstat_def
  SYS_lstat_def SYS_lseek_def SYS_mmap_def SYS_mprotect_def SYS_munmap_def SYS_brk_def
  SYS_rt_sigaction_def SYS_rt_sigprocmask_def SYS_rt_sigreturn_def SYS_ioctl_def
  SYS_pread64_def SYS_readv_def SYS_access_def SYS_pipe_def SYS_dup_def SYS_dup2_def
  SYS_getpid_def SYS_clone_def SYS_vfork_def SYS_execve_def SYS_wait4_def SYS_fcntl_def
  SYS_getdents_def SYS_getcwd_def SYS_chdir_def SYS_rename_def SYS_unlink_def
  SYS_readlink_def SYS_chmod_def SYS_umask_def SYS_sysinfo_def SYS_getrlimit_def
  SYS_getrusage_def SYS_sigaltstack_def SYS_arch_prctl_def SYS_setrlimit_def SYS_futex_def
  SYS_set_tid_address_def SYS_exit_group_def SYS_set_robust_list_def SYS_pipe2_def

lemmas ex_defs =
  ex_descriptor_def ex_proc_def ex_trace_def ex_read_def ex_open_def ex_close_def
  ex_rename_def ex_clone_def ex_clone_failed_def ex_trace_spawned_def


lemma length_designated: "length (designated inits) = designated_size inits"
  by (simp add: designated_def)

lemma nth_designated:
  "i < designated_size inits \<Longrightarrow> designated inits ! i = map_of (rev inits) i"
  by (simp add: designated_def)

lemma kHandlers_size: "designated_size kHandlers_init = 294"
  by (simp add: designated_size_def kHandlers_init_def SYS_defs)

lemma length_kHandlers: "length kHandlers = 294"
  by (simp add: kHandlers_def length_designated kHandlers_size)

lemma kHandlers_nth: "i < 294 \<Longrightarrow> kHandlers ! i = map_of (rev kHandlers_init) i"
  by (simp add: kHandlers_def nth_designated kHandlers_size)

lemma kHandlers_entry: "i < 294 \<Longrightarrow> kHandlers ! i = Some h \<Longrightarrow> (i, h) \<in> set kHandlers_init"
  by (auto simp: kHandlers_nth dest: map_of_SomeD)

text \<open>Every handler the table names, other than the two spawn handlers, returns at once.\<close>

lemma entries_noop:
  "(i, h) \<in> set kHandlers_init \<Longrightarrow> i \<noteq> SYS_clone \<Longrightarrow> i \<noteq> SYS_vfork \<Longrightarrow> h t a = Returned t"
  by (auto simp: kHandlers_init_def sys_defs)

lemma entries_failed:
  "(i, h) \<in> set kHandlers_init \<Longrightarrow> Return a \<le> 0 \<Longrightarrow> h t a = Returned t"
  by (auto simp: kHandlers_init_def sys_defs)

lemma handler_of_SomeD:
  "handler_of sno = Some h \<Longrightarrow>
     \<not> sno <s 0 \<and> unat sno < 294 \<and> kHandlers ! unat sno = Some h \<and>
     (unat sno, h) \<in> set kHandlers_init"
  by (auto simp: handler_of_def length_kHandlers kHandlers_entry split: if_splits)

lemma Handle_handler_of: "handler_of sno = Some h \<Longrightarrow> Handle t sno a = h t a"
  by (auto simp: handler_of_def Handle_def split: if_splits)

lemma Handle_ReturnedD:
  "Handle t sno a = Returned t' \<Longrightarrow>
     t' = t \<or> (\<exists>h. handler_of sno = Some h \<and> h t a = Returned t')"
  by (auto simp: handler_of_def Handle_def split: if_splits option.splits)

lemmas table_simps =
  handler_of_def length_kHandlers kHandlers_nth kHandlers_init_def SYS_defs word_sless_alt

lemma handler_of_read: "handler_of (of_nat SYS_read) = Some sys_read"
  by (simp add: table_simps)

lemma handler_of_pread64: "handler_of (of_nat SYS_pread64) = Some sys_pread64"
  by (simp add: table_simps)

lemma handler_of_getdents: "handler_of (of_nat SYS_getdents) = Some sys_getdents"
  by (simp add: table_simps)

lemma handler_of_open: "handler_of (of_nat SYS_open) = Some sys_open"
  by (simp add: table_simps)

lemma handler_of_close: "handler_of (of_nat SYS_close) = Some sys_close"
  by (simp add: table_simps)

lemma handler_of_rename: "handler_of (of_nat SYS_rename) = Some sys_rename"
  by (simp add: table_simps)

lemma handler_of_clone: "handler_of (of_nat SYS_clone) = Some sys_clone"
  by (simp add: table_simps)

lemma handler_of_vfork: "handler_of (of_nat SYS_vfork) = Some sys_vfork"
  by (simp add: table_simps)

text \<open>Slot 7 (\<^verbatim>\<open>poll\<close> on x86-64) lies inside the table and no designator names it.\<close>

lemma handler_of_7: "handler_of 7 = None"
  by (simp add: table_simps)

subsection \<open>The decimal numeral determines the number\<close>

lemma digit_cases: "d < 10 \<Longrightarrow> d \<in> {0, 1, 2, 3, 4, 5, 6, 7, 8, 9 :: nat}"
  by auto

lemma digit_val_digit_char: "d < 10 \<Longrightarrow> digit_val (digit_char d) = d"
  by (drule digit_cases) (auto simp: digit_val_def digit_char_def)

lemma digit_char_not_minus: "d < 10 \<Longrightarrow> digit_char d \<noteq> CHR ''-''"
  by (drule digit_cases) (auto simp: digit_char_def)

lemma from_digits_snoc: "from_digits (s @ [c]) = 10 * from_digits s + digit_val c"
  by (simp add: from_digits_def)

lemma from_digits_to_string_nat: "from_digits (to_string_nat n) = n"
proof (induction n rule: to_string_nat.induct)
  case (1 n)
  show ?case
  proof (cases "n < 10")
    case True
    then show ?thesis
      by (subst to_string_nat.simps) (simp add: from_digits_def digit_val_digit_char)
  next
    case False
    with 1 have "from_digits (to_string_nat (n div 10)) = n div 10"
      by simp
    with False show ?thesis
      by (subst to_string_nat.simps) (simp add: from_digits_snoc digit_val_digit_char)
  qed
qed

lemma to_string_nat_hd: "to_string_nat n \<noteq> [] \<and> hd (to_string_nat n) \<noteq> CHR ''-''"
proof (induction n rule: to_string_nat.induct)
  case (1 n)
  show ?case
  proof (cases "n < 10")
    case True
    then show ?thesis
      by (subst (1 2) to_string_nat.simps) (simp add: digit_char_not_minus)
  next
    case False
    with 1 have "to_string_nat (n div 10) \<noteq> [] \<and> hd (to_string_nat (n div 10)) \<noteq> CHR ''-''"
      by simp
    with False show ?thesis
      by (subst (1 2) to_string_nat.simps) simp
  qed
qed

lemma to_string_nat_inj: "to_string_nat m = to_string_nat n \<Longrightarrow> m = n"
  by (metis from_digits_to_string_nat)

lemma to_string_inj: "to_string i = to_string j \<Longrightarrow> i = j"
proof -
  assume eq: "to_string i = to_string j"
  have nm: "CHR ''-'' # to_string_nat m \<noteq> to_string_nat n" for m n
    using to_string_nat_hd [of n] by (metis list.sel(1))
  show "i = j"
  proof (cases "i < 0"; cases "j < 0")
    assume "i < 0" "j < 0"
    with eq have "nat (- i) = nat (- j)"
      by (simp add: to_string_def to_string_nat_inj)
    with \<open>i < 0\<close> \<open>j < 0\<close> show ?thesis by simp
  next
    assume "i < 0" "\<not> j < 0"
    with eq nm show ?thesis by (auto simp: to_string_def)
  next
    assume "\<not> i < 0" "j < 0"
    with eq nm show ?thesis by (auto simp: to_string_def dest: sym)
  next
    assume "\<not> i < 0" "\<not> j < 0"
    with eq have "nat i = nat j"
      by (simp add: to_string_def to_string_nat_inj)
    with \<open>\<not> i < 0\<close> \<open>\<not> j < 0\<close> show ?thesis by simp
  qed
qed

lemma to_string_7: "to_string 7 = ''7''"
  by (simp add: to_string_def to_string_nat.simps digit_char_def)

lemma ex_trace_spawned_neq: "ex_trace_spawned \<noteq> ex_trace"
proof
  assume "ex_trace_spawned = ex_trace"
  then have "procs ex_trace_spawned 500 = procs ex_trace 500"
    by simp
  then show False
    by (simp add: ex_trace_spawned_def ex_trace_def)
qed

subsection \<open>Dispatch: numbers the table does not cover\<close>

text \<open>
  C10. For every negative syscall number, \<open>Handle\<close> returns at once: no handler is
  registered for the number and none is called, no error is raised, and the trace is the
  one it was given.
\<close>

theorem Handle_negative_returns:
  "sno <s 0 \<Longrightarrow> handler_of sno = None \<and> Handle t sno a = Returned t"
  by (simp add: Handle_def handler_of_def)

text \<open>A concrete run: the number \<open>- 1\<close> on the example trace.\<close>

theorem Handle_negative_returns_witness:
  "(- 1 :: 64 word) <s 0 \<and> handler_of (- 1) = None \<and> Handle ex_trace (- 1) ex_read = Returned ex_trace"
  using Handle_negative_returns [of "- 1" ex_trace ex_read] by (simp add: word_sless_alt)

text \<open>
  C1, as amended. For every non-negative syscall number that has no entry in the table and
  is not 294 (the number of elements of \<open>kHandlers\<close>), \<open>Handle\<close> throws a
  \<^verbatim>\<open>std::runtime_error\<close> whose message is \<^verbatim>\<open>Unhandled syscall: \<close> followed by the number in
  decimal; the message determines the number.
\<close>

theorem Handle_unclassified_throws:
  assumes "\<not> sno <s 0" and "sno \<noteq> 294" and "handler_of sno = None"
  shows "Handle t sno a = Threw (runtime_error (''Unhandled syscall: '' @ to_string (sint sno)))
    \<and> (\<forall>sno' :: 64 word.
          ''Unhandled syscall: '' @ to_string (sint sno') =
          ''Unhandled syscall: '' @ to_string (sint sno) \<longrightarrow> sno' = sno)"
proof
  from assms(2) have "unat sno \<noteq> 294"
    by (simp add: word_unat_eq_iff)
  with assms(1,3)
  show "Handle t sno a = Threw (runtime_error (''Unhandled syscall: '' @ to_string (sint sno)))"
    by (auto simp: Handle_def handler_of_def length_kHandlers split: if_splits)
next
  show "\<forall>sno' :: 64 word.
          ''Unhandled syscall: '' @ to_string (sint sno') =
          ''Unhandled syscall: '' @ to_string (sint sno) \<longrightarrow> sno' = sno"
    by (auto dest!: to_string_inj intro: signed_word_eqI)
qed

text \<open>A concrete run: number 7, inside the table and without a handler.\<close>

theorem Handle_unclassified_throws_witness:
  "\<not> (7 :: 64 word) <s 0 \<and> (7 :: 64 word) \<noteq> 294 \<and> handler_of 7 = None \<and>
   Handle ex_trace 7 ex_read = Threw (runtime_error ''Unhandled syscall: 7'')"
  using Handle_unclassified_throws [of 7 ex_trace ex_read]
  by (simp add: handler_of_7 word_sless_alt to_string_7)

text \<open>
  The number \<open>- 1\<close> has no entry in the table, and \<open>Handle\<close> returns without throwing.
\<close>

theorem Handle_unclassified_negative_silent:
  "handler_of (- 1) = None \<and> Handle ex_trace (- 1) ex_read = Returned ex_trace \<and>
   Handle ex_trace (- 1) ex_read \<noteq> Threw (runtime_error ''Unhandled syscall: -1'')"
  by (simp add: Handle_def handler_of_def word_sless_alt)

text \<open>
  C2. Every number at or past the end of the dispatch table should be rejected by the
  bounds check. The table has 294 elements, with indices 0 to 293; the check is
  \<^verbatim>\<open>sno > 294\<close>, so the number 294 passes it and \<open>Handle\<close> reads \<^verbatim>\<open>kHandlers[294]\<close>, one
  element past the end.
\<close>

theorem Handle_reads_past_table_end:
  "length kHandlers = 294 \<and> \<not> unat (294 :: 64 word) > length kHandlers \<and>
   \<not> unat (294 :: 64 word) < length kHandlers \<and> Handle t 294 a = Undefined_behaviour"
  by (simp add: Handle_def length_kHandlers word_sless_alt)

subsection \<open>Failed syscalls\<close>

text \<open>
  C3. For every syscall event with a negative return value, processing the event leaves
  the trace exactly as it was: each registered handler returns the trace it was given, and
  so does \<open>Handle\<close> whenever it returns.
\<close>

theorem failed_syscall_no_effect:
  assumes "Return a < 0"
  shows "(\<forall>h. handler_of sno = Some h \<longrightarrow> h t a = Returned t \<and> Handle t sno a = Returned t)
     \<and> (\<forall>t'. Handle t sno a = Returned t' \<longrightarrow> t' = t)"
proof -
  have noop: "h t a = Returned t" if "handler_of sno = Some h" for h
    using that assms handler_of_SomeD [of sno h] entries_failed [of "unat sno" h a t] by simp
  show ?thesis
  proof (intro conjI allI impI)
    fix h assume "handler_of sno = Some h"
    then show "h t a = Returned t" and "Handle t sno a = Returned t"
      using noop [of h] by (simp_all add: Handle_handler_of)
  next
    fix t' assume "Handle t sno a = Returned t'"
    then show "t' = t"
      using Handle_ReturnedD [of t sno a t'] noop by auto
  qed
qed

text \<open>A concrete run: a \<^verbatim>\<open>clone\<close> that failed with \<open>- 11\<close>.\<close>

theorem failed_syscall_no_effect_witness:
  "Return ex_clone_failed < 0 \<and> handler_of (of_nat SYS_clone) = Some sys_clone \<and>
   sys_clone ex_trace ex_clone_failed = Returned ex_trace \<and>
   Handle ex_trace (of_nat SYS_clone) ex_clone_failed = Returned ex_trace"
  using failed_syscall_no_effect [of ex_clone_failed "of_nat SYS_clone" ex_trace]
  by (simp add: handler_of_clone ex_clone_failed_def)

subsection \<open>Process spawn\<close>

text \<open>
  C4. For every \<^verbatim>\<open>clone\<close> or \<^verbatim>\<open>vfork\<close> event with a positive return value, the handler
  calls \<open>SpawnTrace\<close> with the issuing process's pid and the returned child pid; when the
  issuing process is registered this registers the child with the parent's working
  directory and descriptor table, leaves every other process as it was and emits no edge.
  With a zero or negative return value nothing is registered: the trace is unchanged.
\<close>

theorem spawn_registers_child:
  assumes "sno = of_nat SYS_clone \<or> sno = of_nat SYS_vfork"
  shows "(0 < Return a \<longrightarrow>
            sys_clone t a = SpawnTrace t (PID a) (Return a) \<and>
            sys_vfork t a = SpawnTrace t (PID a) (Return a) \<and>
            Handle t sno a = SpawnTrace t (PID a) (Return a))
       \<and> (\<forall>ps. 0 < Return a \<and> procs t (PID a) = Some ps \<longrightarrow>
            (\<exists>t'. Handle t sno a = Returned t' \<and>
               edges t' = edges t \<and>
               procs t' (Return a) =
                 Some \<lparr>ps_pid = Return a, ps_cwd = ps_cwd ps, ps_fds = ps_fds ps,
                       ps_parent = Some (PID a)\<rparr> \<and>
               (\<forall>p. p \<noteq> Return a \<longrightarrow> procs t' p = procs t p)))
       \<and> (Return a \<le> 0 \<longrightarrow>
            sys_clone t a = Returned t \<and> sys_vfork t a = Returned t \<and>
            Handle t sno a = Returned t)"
proof -
  have H: "Handle t sno a = sys_clone t a"
    using assms Handle_handler_of [OF handler_of_clone, of t a]
      Handle_handler_of [OF handler_of_vfork, of t a]
    by (auto simp: sys_clone_def sys_vfork_def)
  show ?thesis
    unfolding H by (auto simp: sys_clone_def sys_vfork_def SpawnTrace_def)
qed

text \<open>
  A concrete run: process 1 calls \<^verbatim>\<open>clone\<close>, which returns 500; and a \<^verbatim>\<open>vfork\<close> that
  failed.
\<close>

theorem spawn_registers_child_witness:
  "0 < Return ex_clone \<and> procs ex_trace (PID ex_clone) = Some ex_proc \<and>
   Handle ex_trace (of_nat SYS_clone) ex_clone = Returned ex_trace_spawned \<and>
   edges ex_trace_spawned = [] \<and>
   descriptor_of ex_trace_spawned 500 3 = Some ex_descriptor \<and>
   Return ex_clone_failed \<le> 0 \<and>
   Handle ex_trace (of_nat SYS_vfork) ex_clone_failed = Returned ex_trace"
  using spawn_registers_child [of "of_nat SYS_clone" ex_clone ex_trace]
    spawn_registers_child [of "of_nat SYS_vfork" ex_clone_failed ex_trace]
  by (simp add: ex_clone_def ex_clone_failed_def ex_trace_def ex_proc_def
      ex_trace_spawned_def SpawnTrace_def descriptor_of_def)

subsection \<open>Handlers that leave the trace alone\<close>

text \<open>
  C9. For every syscall number with a registered handler other than \<^verbatim>\<open>clone\<close> and
  \<^verbatim>\<open>vfork\<close>, the handler, and so \<open>Handle\<close>, returns the trace unchanged; whenever
  \<open>Handle\<close> returns a trace different from the one it was given, the number is that of
  \<^verbatim>\<open>clone\<close> or \<^verbatim>\<open>vfork\<close> and the return value is positive.
\<close>

theorem only_spawn_mutates:
  "(\<forall>h. handler_of sno = Some h \<and> unat sno \<noteq> SYS_clone \<and> unat sno \<noteq> SYS_vfork \<longrightarrow>
      h t a = Returned t \<and> Handle t sno a = Returned t)
   \<and> (\<forall>t'. Handle t sno a = Returned t' \<and> t' \<noteq> t \<longrightarrow>
      (unat sno = SYS_clone \<or> unat sno = SYS_vfork) \<and> 0 < Return a)"
proof (intro conjI allI impI)
  fix h assume h: "handler_of sno = Some h \<and> unat sno \<noteq> SYS_clone \<and> unat sno \<noteq> SYS_vfork"
  then show "h t a = Returned t"
    using handler_of_SomeD [of sno h] entries_noop [of "unat sno" h t a] by simp
  with h show "Handle t sno a = Returned t"
    by (simp add: Handle_handler_of)
next
  fix t' assume t': "Handle t sno a = Returned t' \<and> t' \<noteq> t"
  then obtain h where h: "handler_of sno = Some h" "h t a = Returned t'"
    using Handle_ReturnedD [of t sno a t'] by auto
  then have mem: "(unat sno, h) \<in> set kHandlers_init"
    using handler_of_SomeD by blast
  show "unat sno = SYS_clone \<or> unat sno = SYS_vfork"
    using entries_noop [OF mem, of t a] h t' by auto
  show "0 < Return a"
    using entries_failed [OF mem, of a t] h t' by (cases "Return a \<le> 0") auto
qed

text \<open>
  Concrete runs: a \<^verbatim>\<open>read\<close> leaves the example trace as it is; the \<^verbatim>\<open>clone\<close> returning
  500 changes it.
\<close>

theorem only_spawn_mutates_witness:
  "handler_of (of_nat SYS_read) = Some sys_read \<and>
   unat (of_nat SYS_read :: 64 word) \<noteq> SYS_clone \<and>
   unat (of_nat SYS_read :: 64 word) \<noteq> SYS_vfork \<and>
   sys_read ex_trace ex_read = Returned ex_trace \<and>
   Handle ex_trace (of_nat SYS_read) ex_read = Returned ex_trace \<and>
   Handle ex_trace (of_nat SYS_clone) ex_clone = Returned ex_trace_spawned \<and>
   ex_trace_spawned \<noteq> ex_trace \<and>
   unat (of_nat SYS_clone :: 64 word) = SYS_clone \<and> 0 < Return ex_clone"
proof -
  have spawned: "Handle ex_trace (of_nat SYS_clone) ex_clone = Returned ex_trace_spawned"
    by (simp add: Handle_handler_of [OF handler_of_clone] sys_clone_def SpawnTrace_def
        ex_clone_def ex_trace_def ex_proc_def ex_trace_spawned_def)
  show ?thesis
    using only_spawn_mutates [of "of_nat SYS_read" ex_trace ex_read]
      only_spawn_mutates [of "of_nat SYS_clone" ex_trace ex_clone]
      spawned ex_trace_spawned_neq handler_of_read
    by (simp add: SYS_defs)
qed

subsection \<open>Read, rename, open and close\<close>

text \<open>
  C5, as amended. For every successful \<^verbatim>\<open>read\<close>, \<^verbatim>\<open>pread64\<close> or \<^verbatim>\<open>getdents\<close>, processing
  the event emits no edge and performs no state update: the handler is empty and the trace
  is returned as it was.
\<close>

theorem read_emits_no_edge:
  assumes "0 \<le> Return a"
    and "sno = of_nat SYS_read \<or> sno = of_nat SYS_pread64 \<or> sno = of_nat SYS_getdents"
  shows "Handle t sno a = Returned t"
  using assms(2) Handle_handler_of [OF handler_of_read, of t a]
    Handle_handler_of [OF handler_of_pread64, of t a]
    Handle_handler_of [OF handler_of_getdents, of t a]
  by (auto simp: sys_read_def sys_pread64_def sys_getdents_def)

text \<open>A concrete run: the \<^verbatim>\<open>read\<close> on descriptor 3 that returned 10 bytes.\<close>

theorem read_emits_no_edge_witness:
  "0 \<le> Return ex_read \<and> Handle ex_trace (of_nat SYS_read) ex_read = Returned ex_trace"
  using read_emits_no_edge [of ex_read "of_nat SYS_read" ex_trace]
  by (simp add: ex_read_def)

text \<open>
  Process 1 reads from descriptor 3, open on \<^verbatim>\<open>/tmp/a.txt\<close>, and the read succeeds; the
  trace held no edge before and holds none afterwards.
\<close>

theorem read_one_edge_counterexample:
  "descriptor_of ex_trace (PID ex_read) 3 = Some ex_descriptor \<and> 0 \<le> Return ex_read \<and>
   Handle ex_trace (of_nat SYS_read) ex_read = Returned ex_trace \<and> edges ex_trace = []"
  by (simp add: Handle_handler_of [OF handler_of_read] sys_read_def descriptor_of_def
      ex_trace_def ex_proc_def ex_read_def)

text \<open>
  C6, as amended. Every successful \<^verbatim>\<open>rename\<close> event emits no edge, neither Rename-From nor
  Rename-To, and leaves the trace as it was; so it never emits one of the pair without the
  other.
\<close>

theorem rename_emits_no_edge:
  assumes "0 \<le> Return a"
  shows "Handle t (of_nat SYS_rename) a = Returned t"
  by (simp add: Handle_handler_of [OF handler_of_rename] sys_rename_def)

text \<open>A concrete run: \<^verbatim>\<open>rename("out.tmp", "out.txt")\<close> returning 0.\<close>

theorem rename_emits_no_edge_witness:
  "0 \<le> Return ex_rename \<and> Handle ex_trace (of_nat SYS_rename) ex_rename = Returned ex_trace"
  using rename_emits_no_edge [of ex_rename ex_trace]
  by (simp add: ex_rename_def)

text \<open>
  Process 1 renames a file successfully; the trace held no edge before and holds none
  afterwards.
\<close>

theorem rename_pair_counterexample:
  "0 \<le> Return ex_rename \<and>
   Handle ex_trace (of_nat SYS_rename) ex_rename = Returned ex_trace \<and> edges ex_trace = []"
  by (simp add: Handle_handler_of [OF handler_of_rename] sys_rename_def ex_trace_def
      ex_rename_def)

text \<open>
  C7, as amended. For every successful \<^verbatim>\<open>open\<close> event, processing leaves the trace as it
  was: no entry is added to the issuing process's descriptor table, and no edge is emitted.
\<close>

theorem open_adds_no_descriptor:
  assumes "0 \<le> Return a"
  shows "Handle t (of_nat SYS_open) a = Returned t"
  by (simp add: Handle_handler_of [OF handler_of_open] sys_open_def)

text \<open>A concrete run: the \<^verbatim>\<open>open\<close> that returned descriptor 4.\<close>

theorem open_adds_no_descriptor_witness:
  "0 \<le> Return ex_open \<and> Handle ex_trace (of_nat SYS_open) ex_open = Returned ex_trace"
  using open_adds_no_descriptor [of ex_open ex_trace]
  by (simp add: ex_open_def)

text \<open>
  Process 1 opens a file and gets descriptor 4; afterwards its descriptor table still has
  no entry for 4.
\<close>

theorem open_descriptor_counterexample:
  "Return ex_open = 4 \<and> Handle ex_trace (of_nat SYS_open) ex_open = Returned ex_trace \<and>
   descriptor_of ex_trace (PID ex_open) 4 = None"
  by (simp add: Handle_handler_of [OF handler_of_open] sys_open_def descriptor_of_def
      ex_trace_def ex_proc_def ex_open_def)

text \<open>
  C8, as amended. For every successful \<^verbatim>\<open>close\<close> event, processing leaves the trace as it
  was: the named descriptor stays in the issuing process's descriptor table and no edge is
  emitted; closing a descriptor number unknown to the table is likewise a no-op and not an
  error.
\<close>

theorem close_removes_no_descriptor:
  assumes "0 \<le> Return a"
  shows "Handle t (of_nat SYS_close) a = Returned t"
  by (simp add: Handle_handler_of [OF handler_of_close] sys_close_def)

text \<open>A concrete run: \<^verbatim>\<open>close(3)\<close> returning 0.\<close>

theorem close_removes_no_descriptor_witness:
  "0 \<le> Return ex_close \<and> Handle ex_trace (of_nat SYS_close) ex_close = Returned ex_trace"
  using close_removes_no_descriptor [of ex_close ex_trace]
  by (simp add: ex_close_def)

text \<open>
  Process 1 closes descriptor 3 successfully; afterwards its descriptor table still holds
  descriptor 3.
\<close>

theorem close_descriptor_counterexample:
  "Arg ex_close = [3] \<and> Return ex_close = 0 \<and>
   Handle ex_trace (of_nat SYS_close) ex_close = Returned ex_trace \<and>
   descriptor_of ex_trace (PID ex_close) 3 = Some ex_descriptor"
  by (simp add: Handle_handler_of [OF handler_of_close] sys_close_def descriptor_of_def
      ex_trace_def ex_proc_def ex_close_def)

end
